theory Spec2Isabelle
  imports Complex_Main "HOL-Library.Multiset"
begin

section \<open>Quiz board backend: the quiz routes\<close>

text \<open>
  The file \<^verbatim>\<open>backend/routes/quiz.js\<close> exists in two variants. Variant 1 keeps
  \<^verbatim>\<open>createdBy\<close> and \<^verbatim>\<open>creatorName\<close>, stores participants as records and starts a
  quiz in status \<^verbatim>\<open>pending\<close>; variant 2 keeps only \<^verbatim>\<open>createdBy\<close>, stores participants
  as user ids and starts a quiz in status \<^verbatim>\<open>waiting\<close>. The handlers for
  \<^verbatim>\<open>/submit-answer\<close>, \<^verbatim>\<open>/list\<close>, \<^verbatim>\<open>/submit\<close> and \<^verbatim>\<open>/leaderboard/:code\<close> are the same
  text in both variants and are modelled once, for any participant type.

  Every handler is a function of the collection (the list of stored quiz documents, in
  insertion order), of the fields it reads from the request, and of what it asks the
  environment for (the clock, the random generator). It returns the HTTP status with the
  JSON body and, when it writes, the new collection. The collection is an in-memory list
  whose reads and writes always succeed, so the \<^verbatim>\<open>catch\<close> blocks, which answer 500 when
  the store throws, have no branch here, with one exception: the \<^verbatim>\<open>$push\<close> of variant 1's
  \<^verbatim>\<open>/join\<close>, whose value the schema has to cast. A request field that a handler tests for
  presence
  is an \<open>option\<close> (\<open>None\<close> is JavaScript's \<^verbatim>\<open>undefined\<close>); the other fields have the
  type the handler expects.
\<close>

subsection \<open>JSON values and JavaScript helpers\<close>

datatype json =
    JNull
  | JBool bool
  | JNum int
  | JStr string
  | JArr "json list"
  | JObj "(string \<times> json) list"

type_synonym response = "nat \<times> json"

text \<open>An object literal: a property whose value is \<^verbatim>\<open>undefined\<close> is not serialised.\<close>

fun props :: "(string \<times> json option) list \<Rightarrow> (string \<times> json) list" where
  "props [] = []"
| "props ((k, None) # kvs) = props kvs"
| "props ((k, Some v) # kvs) = (k, v) # props kvs"

definition obj :: "(string \<times> json option) list \<Rightarrow> json" where
  "obj kvs = JObj (props kvs)"

text \<open>Does the key occur as a property name anywhere in the value, at any depth?\<close>

fun has_key :: "string \<Rightarrow> json \<Rightarrow> bool"
  and has_key_list :: "string \<Rightarrow> json list \<Rightarrow> bool"
  and has_key_props :: "string \<Rightarrow> (string \<times> json) list \<Rightarrow> bool" where
  "has_key k JNull = False"
| "has_key k (JBool b) = False"
| "has_key k (JNum n) = False"
| "has_key k (JStr s) = False"
| "has_key k (JArr xs) = has_key_list k xs"
| "has_key k (JObj kvs) = has_key_props k kvs"
| "has_key_list k [] = False"
| "has_key_list k (x # xs) = (has_key k x \<or> has_key_list k xs)"
| "has_key_props k [] = False"
| "has_key_props k ((k', v) # kvs) = (k' = k \<or> has_key k v \<or> has_key_props k kvs)"

text \<open>Property lookup on an object: \<^verbatim>\<open>body[k]\<close>.\<close>

fun jget :: "string \<Rightarrow> json \<Rightarrow> json option" where
  "jget k (JObj kvs) = map_of kvs k"
| "jget k _ = None"

text \<open>\<^verbatim>\<open>!s\<close> for a string-valued field: true for \<^verbatim>\<open>undefined\<close> and for the empty string.\<close>

fun falsy :: "string option \<Rightarrow> bool" where
  "falsy None = True"
| "falsy (Some s) = (s = [])"

text \<open>\<^verbatim>\<open>s.charAt(i)\<close>: the empty string when the index is out of range.\<close>

definition charAt :: "string \<Rightarrow> int \<Rightarrow> string" where
  "charAt s i = (if 0 \<le> i \<and> i < int (length s) then [s ! nat i] else [])"

text \<open>\<^verbatim>\<open>s.substring(a, b)\<close>: both indices are clamped to the length, and swapped when
  \<open>a > b\<close>.\<close>

definition substring :: "nat \<Rightarrow> nat \<Rightarrow> string \<Rightarrow> string" where
  "substring a b s = take (max a b - min a b) (drop (min a b) s)"

text \<open>\<^verbatim>\<open>s.toUpperCase()\<close> on ASCII text.\<close>

definition toUpperChar :: "char \<Rightarrow> char" where
  "toUpperChar c =
     (case map_of (zip ''abcdefghijklmnopqrstuvwxyz'' ''ABCDEFGHIJKLMNOPQRSTUVWXYZ'') c of
        None \<Rightarrow> c
      | Some u \<Rightarrow> u)"

definition toUpperCase :: "string \<Rightarrow> string" where
  "toUpperCase s = map toUpperChar s"

text \<open>\<^verbatim>\<open>xs[i]\<close> on an array: \<^verbatim>\<open>undefined\<close> outside the array.\<close>

definition at_index :: "'a list \<Rightarrow> int \<Rightarrow> 'a option" where
  "at_index xs i = (if 0 \<le> i \<and> i < int (length xs) then Some (xs ! nat i) else None)"

text \<open>\<^verbatim>\<open>xs.sort(cmp)\<close>: a stable sort; \<open>x\<close> stays before \<open>y\<close> unless \<open>cmp x y > 0\<close>.\<close>

fun place :: "('a \<Rightarrow> 'a \<Rightarrow> int) \<Rightarrow> 'a \<Rightarrow> 'a list \<Rightarrow> 'a list" where
  "place cmp x [] = [x]"
| "place cmp x (y # ys) = (if cmp x y \<le> 0 then x # y # ys else y # place cmp x ys)"

fun sort_cmp :: "('a \<Rightarrow> 'a \<Rightarrow> int) \<Rightarrow> 'a list \<Rightarrow> 'a list" where
  "sort_cmp cmp [] = []"
| "sort_cmp cmp (x # xs) = place cmp x (sort_cmp cmp xs)"

text \<open>\<^verbatim>\<open>xs.map((x, index) => f(x, index))\<close>, the index counted from \<open>i\<close>.\<close>

fun map_index :: "(nat \<Rightarrow> 'a \<Rightarrow> 'b) \<Rightarrow> nat \<Rightarrow> 'a list \<Rightarrow> 'b list" where
  "map_index f i [] = []"
| "map_index f i (x # xs) = f i x # map_index f (Suc i) xs"

subsection \<open>Documents\<close>

text \<open>
  The schema file of the repository (\<^verbatim>\<open>models/Quiz.js\<close>, required in line 2 of
  \<^verbatim>\<open>quiz.js\<close>) declares \<^verbatim>\<open>title\<close>, \<^verbatim>\<open>category\<close>, \<^verbatim>\<open>code\<close>, \<^verbatim>\<open>creator\<close>,
  \<^verbatim>\<open>participants: [String]\<close>, \<^verbatim>\<open>questions\<close> (\<^verbatim>\<open>text\<close>, \<^verbatim>\<open>type\<close>, \<^verbatim>\<open>options\<close>,
  \<^verbatim>\<open>correctAnswer\<close>), \<^verbatim>\<open>status\<close> and \<^verbatim>\<open>scores\<close> (\<^verbatim>\<open>userId\<close>, \<^verbatim>\<open>score\<close>). Both
  variants of \<^verbatim>\<open>quiz.js\<close> read and write more than that: \<^verbatim>\<open>createdBy\<close>,
  \<^verbatim>\<open>creatorName\<close>, \<^verbatim>\<open>answers\<close>, \<^verbatim>\<open>startTime\<close>, \<^verbatim>\<open>timeLimit\<close>, \<^verbatim>\<open>submittedAt\<close>, and in
  variant 1 participants that are records. The records below have every field that the
  handlers of \<^verbatim>\<open>quiz.js\<close> read or write, so they are wider than the schema file; which
  of the wider fields a store under that schema would keep is not modelled. Two places
  where it matters are made explicit instead: the cast of the participant that variant
  1's \<^verbatim>\<open>/join\<close> pushes is a parameter of \<open>join1\<close>, and the collections of the two
  theorems on a start and a join that go wrong hold no \<^verbatim>\<open>createdBy\<close> and no
  \<^verbatim>\<open>creatorName\<close>.

  A field that a handler may leave or find \<^verbatim>\<open>undefined\<close> is an \<open>option\<close>; \<^verbatim>\<open>scores\<close> is
  an array path of the schema and starts empty, \<^verbatim>\<open>answers\<close> is created by the first
  answer. Participants are records in variant 1 and user ids in variant 2, so the quiz is
  polymorphic in them. Timestamps are integers; \<open>qid\<close> is the document's \<^verbatim>\<open>_id\<close>,
  numbered in insertion order.
\<close>

record question =
  qtext :: "string option"
  qtype :: "string option"
  options :: "string list option"
  correctAnswer :: "string option"
  timeLimit :: "int option"

record participant =
  p_userId :: string
  p_username :: string
  p_score :: int

record score_entry =
  s_userId :: string
  s_score :: int
  s_submittedAt :: int

record answer_entry =
  a_userId :: string
  a_questionIndex :: int
  a_answer :: string
  a_isCorrect :: bool
  a_timestamp :: int

record 'p quiz =
  qid :: nat
  code :: string
  title :: string
  category :: string
  questions :: "question list"
  createdBy :: "string option"
  creatorName :: "string option"
  status :: string
  participants :: "'p list"
  scores :: "score_entry list"
  answers :: "answer_entry list option"
  startTime :: "int option"

type_synonym 'p store = "'p quiz list"

text \<open>\<^verbatim>\<open>Quiz.findOne({ code })\<close>: the first stored document with that code.\<close>

definition findOne :: "string \<Rightarrow> 'p store \<Rightarrow> 'p quiz option" where
  "findOne c st = find (\<lambda>q. code q = c) st"

text \<open>\<^verbatim>\<open>quiz.save()\<close> on a document that \<open>findOne\<close> returned: the handlers never change
  \<open>code\<close>, so the document written back replaces the first one with its code.\<close>

fun save :: "'p quiz \<Rightarrow> 'p store \<Rightarrow> 'p store" where
  "save q' [] = []"
| "save q' (q # qs) = (if code q = code q' then q' # qs else q # save q' qs)"

text \<open>\<^verbatim>\<open>Quiz.findOneAndUpdate({ code }, { $push: { participants: p } })\<close>.\<close>

fun findOneAndUpdate_push :: "string \<Rightarrow> 'p \<Rightarrow> 'p store \<Rightarrow> 'p store" where
  "findOneAndUpdate_push c p [] = []"
| "findOneAndUpdate_push c p (q # qs) =
     (if code q = c then q\<lparr>participants := participants q @ [p]\<rparr> # qs
      else q # findOneAndUpdate_push c p qs)"

definition err :: "nat \<Rightarrow> string \<Rightarrow> response" where
  "err n msg = (n, JObj [(''error'', JStr msg)])"

subsection \<open>Serialising documents\<close>

definition jstr :: "string option \<Rightarrow> json option" where
  "jstr s = map_option JStr s"

definition jstrs :: "string list \<Rightarrow> json" where
  "jstrs xs = JArr (map JStr xs)"

text \<open>\<^verbatim>\<open>q.options || []\<close> (an array is never falsy) and \<^verbatim>\<open>q.timeLimit || 30\<close> (zero is).\<close>

definition options_or_empty :: "string list option \<Rightarrow> string list" where
  "options_or_empty os = (case os of None \<Rightarrow> [] | Some xs \<Rightarrow> xs)"

definition timeLimit_or_30 :: "int option \<Rightarrow> int" where
  "timeLimit_or_30 t = (case t of None \<Rightarrow> 30 | Some n \<Rightarrow> if n = 0 then 30 else n)"

text \<open>The three shapes of \<^verbatim>\<open>sanitizedQuestions\<close>: with both defaults (variant 1,
  \<^verbatim>\<open>GET /:code\<close> and \<^verbatim>\<open>/join\<close>), with the time limit's default only (variant 1,
  \<^verbatim>\<open>/start\<close>), with no default (variant 2).\<close>

definition sanitized_defaults :: "question \<Rightarrow> json" where
  "sanitized_defaults q = obj
     [(''text'', jstr (qtext q)),
      (''type'', jstr (qtype q)),
      (''options'', Some (jstrs (options_or_empty (options q)))),
      (''timeLimit'', Some (JNum (timeLimit_or_30 (timeLimit q))))]"

definition sanitized_start1 :: "question \<Rightarrow> json" where
  "sanitized_start1 q = obj
     [(''text'', jstr (qtext q)),
      (''type'', jstr (qtype q)),
      (''options'', map_option jstrs (options q)),
      (''timeLimit'', Some (JNum (timeLimit_or_30 (timeLimit q))))]"

definition sanitized_plain :: "question \<Rightarrow> json" where
  "sanitized_plain q = obj
     [(''text'', jstr (qtext q)),
      (''type'', jstr (qtype q)),
      (''options'', map_option jstrs (options q)),
      (''timeLimit'', map_option JNum (timeLimit q))]"

definition question_json :: "question \<Rightarrow> json" where
  "question_json q = obj
     [(''text'', jstr (qtext q)),
      (''type'', jstr (qtype q)),
      (''options'', map_option jstrs (options q)),
      (''correctAnswer'', jstr (correctAnswer q)),
      (''timeLimit'', map_option JNum (timeLimit q))]"

definition participant_json :: "participant \<Rightarrow> json" where
  "participant_json p = JObj
     [(''userId'', JStr (p_userId p)),
      (''username'', JStr (p_username p)),
      (''score'', JNum (p_score p))]"

definition score_json :: "score_entry \<Rightarrow> (string \<times> json option) list" where
  "score_json s =
     [(''userId'', Some (JStr (s_userId s))),
      (''score'', Some (JNum (s_score s))),
      (''submittedAt'', Some (JNum (s_submittedAt s)))]"

definition answer_json :: "answer_entry \<Rightarrow> json" where
  "answer_json a = JObj
     [(''userId'', JStr (a_userId a)),
      (''questionIndex'', JNum (a_questionIndex a)),
      (''answer'', JStr (a_answer a)),
      (''isCorrect'', JBool (a_isCorrect a)),
      (''timestamp'', JNum (a_timestamp a))]"

text \<open>\<^verbatim>\<open>res.json(quiz)\<close>: the whole document, as \<^verbatim>\<open>GET /:code/admin\<close> sends it.\<close>

definition quiz_json :: "('p \<Rightarrow> json) \<Rightarrow> 'p quiz \<Rightarrow> json" where
  "quiz_json pj quiz = obj
     [(''_id'', Some (JNum (int (qid quiz)))),
      (''code'', Some (JStr (code quiz))),
      (''title'', Some (JStr (title quiz))),
      (''category'', Some (JStr (category quiz))),
      (''questions'', Some (JArr (map question_json (questions quiz)))),
      (''createdBy'', jstr (createdBy quiz)),
      (''creatorName'', jstr (creatorName quiz)),
      (''status'', Some (JStr (status quiz))),
      (''participants'', Some (JArr (map pj (participants quiz)))),
      (''scores'', Some (JArr (map (\<lambda>s. obj (score_json s)) (scores quiz)))),
      (''answers'', map_option (\<lambda>as. JArr (map answer_json as)) (answers quiz)),
      (''startTime'', map_option JNum (startTime quiz))]"

text \<open>What \<^verbatim>\<open>/create\<close> stores for each question of the request.\<close>

definition stored_question :: "question \<Rightarrow> question" where
  "stored_question q =
     \<lparr>qtext = qtext q,
      qtype = qtype q,
      options = Some (options_or_empty (options q)),
      correctAnswer = correctAnswer q,
      timeLimit = Some (timeLimit_or_30 (timeLimit q))\<rparr>"

subsection \<open>Variant 1\<close>

definition characters :: string where
  "characters = ''ABCDEFGHIJKLMNOPQRSTUVWXYZ0123456789''"

text \<open>\<^verbatim>\<open>generateUniqueCode\<close>: \<open>rnd i\<close> is the value of the \<open>i\<close>-th call of
  \<^verbatim>\<open>Math.random()\<close>. The product and its floor are taken in the reals; the code multiplies
  doubles, and the rounding of that product is not modelled. For a value within half a
  unit in the last place below a multiple of 1/36 the code can therefore draw the next
  character where the model draws this one. Nothing below depends on which character is
  drawn.\<close>

function codeLoop :: "(nat \<Rightarrow> real) \<Rightarrow> nat \<Rightarrow> string \<Rightarrow> string" where
  "codeLoop rnd i cd =
     (if i < 6
      then codeLoop rnd (i + 1) (cd @ charAt characters \<lfloor>rnd i * real (length characters)\<rfloor>)
      else cd)"
  by pat_completeness auto
termination
  by (relation "measure (\<lambda>(rnd, i, cd). 6 - i)") auto

declare codeLoop.simps [simp del]

definition generateUniqueCode :: "(nat \<Rightarrow> real) \<Rightarrow> string" where
  "generateUniqueCode rnd = codeLoop rnd 0 []"

text \<open>\<^verbatim>\<open>POST /create\<close>. The body's \<^verbatim>\<open>userId\<close> is read and not used.\<close>

definition create1 ::
  "participant store \<Rightarrow> string option \<Rightarrow> string option \<Rightarrow> question list option \<Rightarrow>
   string option \<Rightarrow> string option \<Rightarrow> (nat \<Rightarrow> real) \<Rightarrow> response \<times> participant store" where
  "create1 st title' category' questions' createdBy' creatorName' rnd =
     (if falsy title' \<or> falsy category' \<or> questions' = None \<or> falsy createdBy' \<or>
         falsy creatorName'
      then (err 400 ''Missing required fields'', st)
      else
        let cd = generateUniqueCode rnd;
            quiz = \<lparr>qid = length st,
                    code = cd,
                    title = the title',
                    category = the category',
                    questions = map stored_question (the questions'),
                    createdBy = createdBy',
                    creatorName = creatorName',
                    status = ''pending'',
                    participants = [],
                    scores = [],
                    answers = None,
                    startTime = None\<rparr>
        in ((201, JObj [(''success'', JBool True),
                        (''code'', JStr (code quiz)),
                        (''message'', JStr ''Quiz created successfully'')]),
            st @ [quiz]))"


text \<open>\<^verbatim>\<open>GET /:code/admin\<close>.\<close>

definition getAdmin1 :: "participant store \<Rightarrow> string \<Rightarrow> string option \<Rightarrow> response" where
  "getAdmin1 st c createdBy' =
     (case findOne c st of
        None \<Rightarrow> err 404 ''Quiz not found''
      | Some quiz \<Rightarrow>
          if createdBy quiz \<noteq> createdBy' then err 403 ''Unauthorized access''
          else (200, quiz_json participant_json quiz))"

text \<open>\<^verbatim>\<open>POST /join\<close>.\<close>

definition join_view1 :: "string \<Rightarrow> participant quiz \<Rightarrow> response" where
  "join_view1 msg quiz =
     (200, JObj
        [(''success'', JBool True),
         (''message'', JStr msg),
         (''quiz'', obj
            [(''title'', Some (JStr (title quiz))),
             (''category'', Some (JStr (category quiz))),
             (''questions'', Some (JArr (map sanitized_defaults (questions quiz)))),
             (''participants'', Some (JArr (map participant_json (participants quiz)))),
             (''participantCount'', Some (JNum (int (length (participants quiz))))),
             (''status'', Some (JStr (status quiz))),
             (''creatorName'', jstr (creatorName quiz)),
             (''createdBy'', jstr (createdBy quiz)),
             (''code'', Some (JStr (code quiz)))])])"

text \<open>
  The handler. \<open>cast\<close> is what the \<^verbatim>\<open>participants\<close> array of the schema makes of the value
  that \<^verbatim>\<open>$push\<close> is given: the element to store, or the message of the cast error, with
  which \<^verbatim>\<open>findOneAndUpdate\<close> throws, nothing is written and the \<^verbatim>\<open>catch\<close> block answers
  500.
\<close>

definition join1 ::
  "(participant \<Rightarrow> string + participant) \<Rightarrow> participant store \<Rightarrow>
   string option \<Rightarrow> string option \<Rightarrow> string option \<Rightarrow> response \<times> participant store" where
  "join1 cast st code' userId username =
     (if falsy code' \<or> falsy userId \<or> falsy username
      then (err 400 ''Missing required fields'', st)
      else
        case findOne (the code') st of
          None \<Rightarrow> (err 404 ''Quiz not found'', st)
        | Some quiz \<Rightarrow>
            if status quiz \<noteq> ''pending'' then (err 400 ''Quiz has already started'', st)
            else
              (case find (\<lambda>p. p_userId p = the userId) (participants quiz) of
                 None \<Rightarrow>
                   let newParticipant =
                         \<lparr>p_userId = the userId, p_username = the username, p_score = 0\<rparr>
                   in (case cast newParticipant of
                         Inl message \<Rightarrow>
                           ((500, JObj [(''success'', JBool False),
                                        (''error'', JStr ''Failed to join quiz''),
                                        (''details'', JStr message)]),
                            st)
                       | Inr stored \<Rightarrow>
                           let st' = findOneAndUpdate_push (the code') stored st
                           in (case findOne (the code') st' of
                                 None \<Rightarrow> (err 404 ''Failed to update quiz'', st')
                               | Some updatedQuiz \<Rightarrow>
                                   (join_view1 ''Joined quiz successfully'' updatedQuiz, st')))
               | Some existingParticipant \<Rightarrow> (join_view1 ''Already joined quiz'' quiz, st)))"

text \<open>The two casts: an array of participant records, which keeps the record, and the
  \<^verbatim>\<open>participants: [String]\<close> of the schema file, which cannot make a string of it.\<close>

definition cast_record :: "participant \<Rightarrow> string + participant" where
  "cast_record p = Inr p"

definition cast_String :: "participant \<Rightarrow> string + participant" where
  "cast_String p = Inl ''Cast to [string] failed at path participants''"

text \<open>\<^verbatim>\<open>POST /start\<close>; \<open>now\<close> is the value of \<^verbatim>\<open>new Date()\<close>.\<close>

definition fail :: "nat \<Rightarrow> string \<Rightarrow> response" where
  "fail n msg = (n, JObj [(''success'', JBool False), (''error'', JStr msg)])"

definition start1 ::
  "participant store \<Rightarrow> string option \<Rightarrow> string option \<Rightarrow> int \<Rightarrow>
   response \<times> participant store" where
  "start1 st code' creatorName' now =
     (if falsy code' \<or> falsy creatorName' then (fail 400 ''Missing required fields'', st)
      else
        case findOne (the code') st of
          None \<Rightarrow> (fail 404 ''Quiz not found'', st)
        | Some quiz \<Rightarrow>
            if creatorName quiz \<noteq> creatorName'
            then (fail 403 ''Only quiz creator can start the quiz'', st)
            else if status quiz = ''active'' then (fail 400 ''Quiz is already started'', st)
            else if length (participants quiz) < 1
            then (fail 400 ''Cannot start quiz with no participants'', st)
            else
              let quiz' = quiz\<lparr>status := ''active'', startTime := Some now\<rparr>
              in ((200, JObj
                     [(''success'', JBool True),
                      (''message'', JStr ''Quiz started successfully''),
                      (''questions'', JArr (map sanitized_start1 (questions quiz')))]),
                  save quiz' st))"

subsection \<open>The handlers that both variants share\<close>

text \<open>\<^verbatim>\<open>POST /submit-answer\<close>.\<close>

definition submitAnswer ::
  "'p store \<Rightarrow> string \<Rightarrow> string \<Rightarrow> int \<Rightarrow> string \<Rightarrow> int \<Rightarrow> response \<times> 'p store" where
  "submitAnswer st c userId questionIndex answer now =
     (case findOne c st of
        None \<Rightarrow> (err 404 ''Quiz not found'', st)
      | Some quiz \<Rightarrow>
          if status quiz \<noteq> ''active'' then (err 400 ''Quiz is not active'', st)
          else
            (case at_index (questions quiz) questionIndex of
               None \<Rightarrow> (err 400 ''Invalid question index'', st)
             | Some question \<Rightarrow>
                 let isCorrect = (correctAnswer question = Some answer);
                     entry = \<lparr>a_userId = userId, a_questionIndex = questionIndex,
                              a_answer = answer, a_isCorrect = isCorrect, a_timestamp = now\<rparr>;
                     quiz' = quiz\<lparr>answers :=
                               Some ((case answers quiz of None \<Rightarrow> [] | Some as \<Rightarrow> as) @ [entry])\<rparr>
                 in ((200, obj
                        [(''success'', Some (JBool True)),
                         (''correct'', Some (JBool isCorrect)),
                         (''correctAnswer'', jstr (correctAnswer question))]),
                     save quiz' st)))"


text \<open>\<^verbatim>\<open>POST /submit\<close>: the entry is pushed first, the rank is counted over the list
  that already holds it.\<close>

definition submitScore ::
  "'p store \<Rightarrow> string \<Rightarrow> string \<Rightarrow> int \<Rightarrow> int \<Rightarrow> response \<times> 'p store" where
  "submitScore st c userId score now =
     (case findOne c st of
        None \<Rightarrow> (err 404 ''Quiz not found'', st)
      | Some quiz \<Rightarrow>
          let quiz' = quiz\<lparr>scores := scores quiz @
                        [\<lparr>s_userId = userId, s_score = score, s_submittedAt = now\<rparr>]\<rparr>
          in ((200, JObj
                 [(''message'', JStr ''Score submitted successfully''),
                  (''currentRank'',
                   JNum (int (length (filter (\<lambda>s. s_score s > score) (scores quiz'))) + 1))]),
              save quiz' st))"

text \<open>\<^verbatim>\<open>GET /leaderboard/:code\<close>: the comparator is \<^verbatim>\<open>(a, b) => b.score - a.score\<close>; the
  array is sorted in memory and not saved.\<close>

definition by_score_desc :: "score_entry \<Rightarrow> score_entry \<Rightarrow> int" where
  "by_score_desc a b = s_score b - s_score a"

definition ranked :: "nat \<Rightarrow> score_entry \<Rightarrow> json" where
  "ranked index s = obj (score_json s @ [(''rank'', Some (JNum (int index + 1)))])"

definition leaderboard :: "'p store \<Rightarrow> string \<Rightarrow> response" where
  "leaderboard st c =
     (case findOne c st of
        None \<Rightarrow> err 404 ''Quiz not found''
      | Some quiz \<Rightarrow> (200, JArr (map_index ranked 0 (sort_cmp by_score_desc (scores quiz)))))"

subsection \<open>Variant 2\<close>

text \<open>The loop over the questions of \<^verbatim>\<open>POST /create\<close>: the message of the first
  question that fails, if any.\<close>

fun validateQuestions :: "question list \<Rightarrow> string option" where
  "validateQuestions [] = None"
| "validateQuestions (question # rest) =
     (if falsy (qtext question) \<or> falsy (qtype question) \<or> falsy (correctAnswer question)
      then Some ''Invalid question format''
      else if qtype question = Some ''multiple'' \<and>
              (case options question of None \<Rightarrow> True | Some os \<Rightarrow> length os < 2)
      then Some ''Multiple choice questions must have at least 2 options''
      else validateQuestions rest)"

text \<open>\<^verbatim>\<open>POST /create\<close>; \<open>r36\<close> is the text of \<^verbatim>\<open>Math.random().toString(36)\<close>, for
  example \<^verbatim>\<open>0.4fzyo82mvyr\<close>, or \<^verbatim>\<open>0.i\<close> when the number drawn is one half.\<close>

definition create2 ::
  "string store \<Rightarrow> string option \<Rightarrow> string option \<Rightarrow> question list option \<Rightarrow>
   string option \<Rightarrow> string \<Rightarrow> response \<times> string store" where
  "create2 st title' category' questions' userId r36 =
     (if falsy title' \<or> falsy category' \<or> questions' = None \<or> length (the questions') = 0
      then (err 400 ''Missing required fields'', st)
      else
        case validateQuestions (the questions') of
          Some msg \<Rightarrow> (err 400 msg, st)
        | None \<Rightarrow>
            let cd = toUpperCase (substring 2 8 r36);
                quiz = \<lparr>qid = length st,
                        code = cd,
                        title = the title',
                        category = the category',
                        questions = map stored_question (the questions'),
                        createdBy = userId,
                        creatorName = None,
                        status = ''waiting'',
                        participants = [],
                        scores = [],
                        answers = None,
                        startTime = None\<rparr>
            in ((201, JObj [(''message'', JStr ''Quiz created successfully''),
                            (''code'', JStr (code quiz)),
                            (''quizId'', JNum (int (qid quiz)))]),
                st @ [quiz]))"


text \<open>\<^verbatim>\<open>GET /:code/admin\<close>.\<close>

definition getAdmin2 :: "string store \<Rightarrow> string \<Rightarrow> string option \<Rightarrow> response" where
  "getAdmin2 st c userId =
     (case findOne c st of
        None \<Rightarrow> err 404 ''Quiz not found''
      | Some quiz \<Rightarrow>
          if createdBy quiz \<noteq> userId then err 403 ''Unauthorized access''
          else (200, quiz_json JStr quiz))"

text \<open>\<^verbatim>\<open>POST /join\<close>.\<close>

definition join2 :: "string store \<Rightarrow> string \<Rightarrow> string \<Rightarrow> response \<times> string store" where
  "join2 st c userId =
     (case findOne c st of
        None \<Rightarrow> (err 404 ''Quiz not found'', st)
      | Some quiz \<Rightarrow>
          if status quiz \<noteq> ''waiting'' then (err 400 ''Quiz has already started'', st)
          else
            let quiz' = (if userId \<notin> set (participants quiz)
                         then quiz\<lparr>participants := participants quiz @ [userId]\<rparr>
                         else quiz);
                st' = (if userId \<notin> set (participants quiz) then save quiz' st else st)
            in ((200, JObj
                   [(''message'', JStr ''Joined quiz successfully''),
                    (''quiz'', JObj
                       [(''title'', JStr (title quiz')),
                        (''category'', JStr (category quiz')),
                        (''questions'', JArr (map sanitized_plain (questions quiz'))),
                        (''participantCount'', JNum (int (length (participants quiz'))))])]),
                st'))"

text \<open>\<^verbatim>\<open>POST /start\<close>: there is no test of the status.\<close>

definition start2 :: "string store \<Rightarrow> string \<Rightarrow> string option \<Rightarrow> int \<Rightarrow> response \<times> string store" where
  "start2 st c userId now =
     (case findOne c st of
        None \<Rightarrow> (err 404 ''Quiz not found'', st)
      | Some quiz \<Rightarrow>
          if createdBy quiz \<noteq> userId
          then (err 403 ''Only quiz creator can start the quiz'', st)
          else if length (participants quiz) = 0
          then (err 400 ''Cannot start quiz with no participants'', st)
          else
            let quiz' = quiz\<lparr>status := ''active'', startTime := Some now\<rparr>
            in ((200, JObj
                   [(''success'', JBool True),
                    (''message'', JStr ''Quiz started successfully''),
                    (''questions'', JArr (map sanitized_plain (questions quiz')))]),
                save quiz' st))"

subsection \<open>Reading a response\<close>

text \<open>The participant count of a \<^verbatim>\<open>/join\<close> response: \<^verbatim>\<open>body.quiz.participantCount\<close>.\<close>

definition participantCount_of :: "response \<Rightarrow> json option" where
  "participantCount_of r =
     (case jget ''quiz'' (snd r) of None \<Rightarrow> None | Some v \<Rightarrow> jget ''participantCount'' v)"

text \<open>The rank that a leaderboard gives to the first entry of a user.\<close>

fun rank_of :: "string \<Rightarrow> json \<Rightarrow> json option" where
  "rank_of u (JArr es) =
     (case find (\<lambda>e. jget ''userId'' e = Some (JStr u)) es of
        None \<Rightarrow> None
      | Some e \<Rightarrow> jget ''rank'' e)"
| "rank_of u _ = None"

subsection \<open>Example documents\<close>

definition q1 :: question where
  "q1 = \<lparr>qtext = Some ''Q1'', qtype = Some ''multiple'', options = Some [''A'', ''B''],
          correctAnswer = Some ''A'', timeLimit = Some 30\<rparr>"

definition quiz1 :: "string \<Rightarrow> participant list \<Rightarrow> participant quiz" where
  "quiz1 s ps = \<lparr>qid = 0, code = ''ABC123'', title = ''T'', category = ''C'', questions = [q1],
     createdBy = Some ''u1'', creatorName = Some ''Ann'', status = s, participants = ps,
     scores = [], answers = None, startTime = None\<rparr>"

definition quiz2 :: "string \<Rightarrow> string list \<Rightarrow> string quiz" where
  "quiz2 s ps = \<lparr>qid = 0, code = ''ABC123'', title = ''T'', category = ''C'', questions = [q1],
     createdBy = Some ''u1'', creatorName = None, status = s, participants = ps,
     scores = [], answers = None, startTime = Some 100\<rparr>"

definition pending1 :: "participant quiz" where
  "pending1 = \<lparr>qid = 0, code = ''ABC123'', title = ''T'', category = ''C'', questions = [q1],
     createdBy = None, creatorName = None, status = ''pending'', participants = [],
     scores = [], answers = None, startTime = None\<rparr>"

text \<open>Variant 2: a quiz created with no \<^verbatim>\<open>userId\<close> in the body, joined by \<^verbatim>\<open>u2\<close>, and
  then started with no \<^verbatim>\<open>userId\<close> in the body.\<close>

definition joined2 :: "string store" where
  "joined2 =
     snd (join2 (snd (create2 [] (Some ''T'') (Some ''C'') (Some [q1]) None ''0.4fzyo82mvyr''))
            ''4FZYO8'' ''u2'')"

definition started2 :: "string store" where
  "started2 = snd (start2 joined2 ''4FZYO8'' None 100)"


definition scored :: "score_entry list \<Rightarrow> string quiz" where
  "scored ss = \<lparr>qid = 0, code = ''ABC123'', title = ''T'', category = ''C'', questions = [],
     createdBy = Some ''u1'', creatorName = None, status = ''waiting'', participants = [],
     scores = ss, answers = None, startTime = None\<rparr>"

definition three :: "score_entry list" where
  "three = [\<lparr>s_userId = ''u1'', s_score = 50, s_submittedAt = 1\<rparr>,
            \<lparr>s_userId = ''u2'', s_score = 90, s_submittedAt = 2\<rparr>,
            \<lparr>s_userId = ''u3'', s_score = 70, s_submittedAt = 3\<rparr>]"

definition no_answer_question :: question where
  "no_answer_question = \<lparr>qtext = None, qtype = Some ''multiple'', options = Some [''A''],
      correctAnswer = None, timeLimit = None\<rparr>"

section \<open>Properties\<close>

subsection \<open>The collection\<close>

lemma findOne_code: "findOne c st = Some q \<Longrightarrow> code q = c"
  unfolding findOne_def by (induction st) (auto split: if_splits)

lemma findOne_save:
  "findOne c st = Some q \<Longrightarrow> code q' = c \<Longrightarrow> findOne c (save q' st) = Some q'"
  unfolding findOne_def by (induction st) (auto split: if_splits)

lemma findOne_push:
  "findOne c st = Some q \<Longrightarrow>
   findOne c (findOneAndUpdate_push c p st) = Some (q\<lparr>participants := participants q @ [p]\<rparr>)"
  unfolding findOne_def by (induction st) (auto split: if_splits)

subsection \<open>Where the correct answer is sent\<close>



lemma has_key_list_iff: "has_key_list k xs \<longleftrightarrow> (\<exists>x \<in> set xs. has_key k x)"
  by (induction xs) auto

lemma has_key_JArr_map: "has_key k (JArr (map f xs)) \<longleftrightarrow> (\<exists>x \<in> set xs. has_key k (f x))"
  by (simp add: has_key_list_iff)

























subsection \<open>Creating a quiz\<close>

text \<open>Variant 1: the six characters of \<^verbatim>\<open>generateUniqueCode\<close>, when every value of
  \<^verbatim>\<open>Math.random()\<close> lies in \<open>[0, 1)\<close>.\<close>

lemma charAt_characters:
  assumes "0 \<le> r" and "r < 1"
  shows "\<exists>ch \<in> set characters. charAt characters \<lfloor>r * real (length characters)\<rfloor> = [ch]"
proof -
  let ?i = "\<lfloor>r * real (length characters)\<rfloor>"
  have n: "length characters = 36"
    by (simp add: characters_def)
  have lo: "0 \<le> ?i"
    using assms by simp
  have "r * 36 < 36"
    using assms by simp
  then have hi: "?i < 36"
    unfolding n by (simp add: floor_less_iff)
  have "nat ?i < 36"
    using lo hi by linarith
  then have "nat ?i < length characters"
    unfolding n .
  then have "characters ! nat ?i \<in> set characters"
    by (rule nth_mem)
  moreover have "charAt characters ?i = [characters ! nat ?i]"
    using lo hi n by (simp add: charAt_def)
  ultimately show ?thesis by blast
qed

lemma codeLoop_six:
  "\<forall>j<6. 0 \<le> rnd j \<and> rnd j < 1 \<Longrightarrow> i \<le> 6 \<Longrightarrow>
   length (codeLoop rnd i cd) = length cd + (6 - i) \<and>
   set (codeLoop rnd i cd) \<subseteq> set cd \<union> set characters"
proof (induction rnd i cd rule: codeLoop.induct)
  case (1 rnd i cd)
  show ?case
  proof (cases "i < 6")
    case True
    then obtain ch where ch: "ch \<in> set characters"
      "charAt characters \<lfloor>rnd i * real (length characters)\<rfloor> = [ch]"
      using charAt_characters [of "rnd i"] "1.prems" by blast
    have "length (codeLoop rnd (i + 1) (cd @ [ch])) = length (cd @ [ch]) + (6 - (i + 1)) \<and>
          set (codeLoop rnd (i + 1) (cd @ [ch])) \<subseteq> set (cd @ [ch]) \<union> set characters"
      using "1.IH" [OF True] "1.prems" True ch by simp
    then show ?thesis
      using True ch by (subst codeLoop.simps, subst codeLoop.simps) auto
  next
    case False
    then show ?thesis
      using "1.prems" by (subst codeLoop.simps, subst codeLoop.simps) simp
  qed
qed

lemma generateUniqueCode_six:
  "\<forall>j<6. 0 \<le> rnd j \<and> rnd j < 1 \<Longrightarrow>
   length (generateUniqueCode rnd) = 6 \<and> set (generateUniqueCode rnd) \<subseteq> set characters"
  using codeLoop_six [of rnd 0 "[]"] by (simp add: generateUniqueCode_def)

lemma create1_code:
  "\<not> falsy t \<Longrightarrow> \<not> falsy cat \<Longrightarrow> qs \<noteq> None \<Longrightarrow> \<not> falsy cb \<Longrightarrow> \<not> falsy cn \<Longrightarrow>
   fst (fst (create1 st t cat qs cb cn rnd)) = 201 \<and>
   jget ''code'' (snd (fst (create1 st t cat qs cb cn rnd))) = Some (JStr (generateUniqueCode rnd))"
  by (auto simp: create1_def Let_def)

lemma create2_code:
  "fst (fst (create2 st t cat qs u r36)) = 201 \<Longrightarrow>
   jget ''code'' (snd (fst (create2 st t cat qs u r36))) =
     Some (JStr (toUpperCase (take 6 (drop 2 r36))))"
  by (simp add: create2_def Let_def err_def substring_def split: if_splits option.splits)

text \<open>
  Claim C3 says that the code returned by \<^verbatim>\<open>/create\<close> has exactly 6 characters from
  A-Z and 0-9. Variant 1 does that (\<open>generateUniqueCode_six\<close>, \<open>create1_code\<close>).
  Variant 2 takes characters 2 to 7 of the base-36 text of the random number, which can be
  shorter than 8 characters: when the number drawn is one half the text is \<^verbatim>\<open>0.i\<close> and
  the code returned is the single character \<^verbatim>\<open>I\<close>.
\<close>

theorem create2_code_short:
  "fst (create2 [] (Some ''T'') (Some ''C'') (Some [q1]) (Some ''u1'') ''0.i'') =
     (201, JObj [(''message'', JStr ''Quiz created successfully''),
                 (''code'', JStr ''I''),
                 (''quizId'', JNum 0)]) \<and>
   length ''I'' \<noteq> (6::nat)"
  by (simp add: create2_def q1_def Let_def substring_def toUpperCase_def toUpperChar_def)

lemma validateQuestions_rejects:
  "q \<in> set qs \<Longrightarrow>
   qtext q = None \<or> qtype q = None \<or> correctAnswer q = None \<or>
     (qtype q = Some ''multiple'' \<and> length (options_or_empty (options q)) < 2) \<Longrightarrow>
   validateQuestions qs \<noteq> None"
  by (induction qs) (auto simp: options_or_empty_def split: option.splits)

lemma create2_rejects:
  assumes "q \<in> set qs"
    and "qtext q = None \<or> qtype q = None \<or> correctAnswer q = None \<or>
     (qtype q = Some ''multiple'' \<and> length (options_or_empty (options q)) < 2)"
  shows "fst (fst (create2 st t cat (Some qs) u r36)) = 400 \<and>
         snd (create2 st t cat (Some qs) u r36) = st"
  using validateQuestions_rejects [OF assms]
  by (auto simp: create2_def err_def split: option.splits)

text \<open>
  Claim C4 says that \<^verbatim>\<open>/create\<close> answers 400 and stores nothing when a question lacks
  text, type or correctAnswer, or is of type \<^verbatim>\<open>multiple\<close> with fewer than 2 options.
  Variant 2 does that (\<open>create2_rejects\<close>). Variant 1 never looks inside the questions:
  a question with no text and no correct answer, of type \<^verbatim>\<open>multiple\<close> with one option, is
  stored and the answer is 201; variant 2 refuses the same request.
\<close>

theorem create1_stores_invalid_question:
  "fst (fst (create1 [] (Some ''T'') (Some ''C'') (Some [no_answer_question]) (Some ''u1'')
     (Some ''Ann'') (\<lambda>i. 1 / 2))) = 201 \<and>
   map questions (snd (create1 [] (Some ''T'') (Some ''C'') (Some [no_answer_question])
     (Some ''u1'') (Some ''Ann'') (\<lambda>i. 1 / 2))) =
     [[\<lparr>qtext = None, qtype = Some ''multiple'', options = Some [''A''],
        correctAnswer = None, timeLimit = Some 30\<rparr>]] \<and>
   create2 [] (Some ''T'') (Some ''C'') (Some [no_answer_question]) (Some ''u1'') ''0.4fzyo82mvyr'' =
     (err 400 ''Invalid question format'', [])"
  by (simp add: create1_def create2_def no_answer_question_def stored_question_def
      options_or_empty_def timeLimit_or_30_def Let_def)

subsection \<open>Joining a quiz\<close>

lemma participantCount_join_view1:
  "participantCount_of (join_view1 msg quiz) = Some (JNum (int (length (participants quiz))))"
  by (simp add: participantCount_of_def join_view1_def obj_def)

lemma join1_member:
  assumes "findOne c st = Some quiz" and "status quiz = ''pending''"
    and "find (\<lambda>p. p_userId p = u) (participants quiz) = Some p"
    and "c \<noteq> []" and "u \<noteq> []" and "n \<noteq> []"
  shows "join1 cast st (Some c) (Some u) (Some n) = (join_view1 ''Already joined quiz'' quiz, st)"
  using assms by (simp add: join1_def)

lemma join1_new:
  assumes "findOne c st = Some quiz" and "status quiz = ''pending''"
    and "find (\<lambda>p. p_userId p = u) (participants quiz) = None"
    and "c \<noteq> []" and "u \<noteq> []" and "n \<noteq> []"
  shows "join1 cast_record st (Some c) (Some u) (Some n) =
           (join_view1 ''Joined quiz successfully''
              (quiz\<lparr>participants := participants quiz @
                 [\<lparr>p_userId = u, p_username = n, p_score = 0\<rparr>]\<rparr>),
            findOneAndUpdate_push c \<lparr>p_userId = u, p_username = n, p_score = 0\<rparr> st)"
  using assms by (simp add: join1_def cast_record_def Let_def findOne_push)

text \<open>When the cast fails, a user who is not yet a participant is answered 500 and
  nothing is written.\<close>

lemma join1_cast_fails:
  assumes "findOne c st = Some quiz" and "status quiz = ''pending''"
    and "find (\<lambda>p. p_userId p = u) (participants quiz) = None"
    and "c \<noteq> []" and "u \<noteq> []" and "n \<noteq> []"
    and "cast \<lparr>p_userId = u, p_username = n, p_score = 0\<rparr> = Inl message"
  shows "join1 cast st (Some c) (Some u) (Some n) =
           ((500, JObj [(''success'', JBool False),
                        (''error'', JStr ''Failed to join quiz''),
                        (''details'', JStr message)]),
            st)"
  using assms by (simp add: join1_def Let_def)

lemma find_append_new:
  "find (\<lambda>p. p_userId p = u) ps = None \<Longrightarrow>
   find (\<lambda>p. p_userId p = u) (ps @ [\<lparr>p_userId = u, p_username = n, p_score = 0\<rparr>]) =
     Some \<lparr>p_userId = u, p_username = n, p_score = 0\<rparr>"
  by (induction ps) (auto split: if_splits)

text \<open>
  With an array that keeps participant records, variant 1's join is idempotent per code
  and user id: the second call may carry another username \<open>n'\<close>, it is answered with the
  stored quiz, it writes nothing, and the participant count is the one of the first call.
\<close>

lemma join1_idempotent:
  assumes f: "findOne c st = Some quiz" and s: "status quiz = ''pending''"
    and c: "c \<noteq> []" and u: "u \<noteq> []" and n: "n \<noteq> []" and n': "n' \<noteq> []"
  shows "\<exists>quiz'. findOne c (snd (join1 cast_record st (Some c) (Some u) (Some n))) = Some quiz' \<and>
           fst (fst (join1 cast_record st (Some c) (Some u) (Some n))) = 200 \<and>
           participantCount_of (fst (join1 cast_record st (Some c) (Some u) (Some n))) =
             Some (JNum (int (length (participants quiz')))) \<and>
           join1 cast_record (snd (join1 cast_record st (Some c) (Some u) (Some n)))
               (Some c) (Some u) (Some n') =
             (join_view1 ''Already joined quiz'' quiz',
              snd (join1 cast_record st (Some c) (Some u) (Some n)))"
proof (cases "find (\<lambda>p. p_userId p = u) (participants quiz)")
  case None
  let ?p = "\<lparr>p_userId = u, p_username = n, p_score = 0\<rparr>"
  let ?q = "quiz\<lparr>participants := participants quiz @ [?p]\<rparr>"
  let ?st = "findOneAndUpdate_push c ?p st"
  have first: "join1 cast_record st (Some c) (Some u) (Some n) =
      (join_view1 ''Joined quiz successfully'' ?q, ?st)"
    by (rule join1_new [OF f s None c u n])
  have f': "findOne c ?st = Some ?q"
    by (rule findOne_push [OF f])
  have m: "find (\<lambda>p. p_userId p = u) (participants ?q) = Some ?p"
    using find_append_new [OF None] by simp
  have s': "status ?q = ''pending''"
    using s by simp
  have again: "join1 cast_record ?st (Some c) (Some u) (Some n') =
      (join_view1 ''Already joined quiz'' ?q, ?st)"
    by (rule join1_member [OF f' s' m c u n'])
  show ?thesis
    unfolding first using f' again
    by (simp add: participantCount_join_view1) (simp add: join_view1_def)
next
  case (Some p)
  have first: "join1 cast_record st (Some c) (Some u) (Some n) =
      (join_view1 ''Already joined quiz'' quiz, st)"
    by (rule join1_member [OF f s Some c u n])
  have again: "join1 cast_record st (Some c) (Some u) (Some n') =
      (join_view1 ''Already joined quiz'' quiz, st)"
    by (rule join1_member [OF f s Some c u n'])
  show ?thesis
    unfolding first using f again
    by (simp add: participantCount_join_view1) (simp add: join_view1_def)
qed

lemma participantCount_join2:
  "findOne c st = Some quiz \<Longrightarrow> status quiz = ''waiting'' \<Longrightarrow>
   participantCount_of (fst (join2 st c u)) =
     Some (JNum (int (length (if u \<in> set (participants quiz) then participants quiz
                              else participants quiz @ [u]))))"
  by (simp add: join2_def participantCount_of_def Let_def)

text \<open>
  Variant 2 pushes the user id itself, and its join is idempotent per code and user id, for
  every quiz in the waiting state and every user id: both calls answer 200, the second
  writes nothing and reports the participant count of the first, which is the number of
  participants stored.
\<close>

lemma join2_idempotent:
  assumes f: "findOne c st = Some quiz" and s: "status quiz = ''waiting''"
  shows "\<exists>quiz'. findOne c (snd (join2 st c u)) = Some quiz' \<and>
           fst (fst (join2 st c u)) = 200 \<and>
           participantCount_of (fst (join2 st c u)) = Some (JNum (int (length (participants quiz')))) \<and>
           fst (fst (join2 (snd (join2 st c u)) c u)) = 200 \<and>
           participantCount_of (fst (join2 (snd (join2 st c u)) c u)) =
             Some (JNum (int (length (participants quiz')))) \<and>
           snd (join2 (snd (join2 st c u)) c u) = snd (join2 st c u)"
proof (cases "u \<in> set (participants quiz)")
  case True
  then have st: "snd (join2 st c u) = st"
    using f s by (simp add: join2_def Let_def)
  show ?thesis
    unfolding st using f s True
    by (simp add: participantCount_join2) (simp add: join2_def Let_def)
next
  case False
  let ?q = "quiz\<lparr>participants := participants quiz @ [u]\<rparr>"
  have st: "snd (join2 st c u) = save ?q st"
    using f s False by (simp add: join2_def Let_def)
  have f': "findOne c (save ?q st) = Some ?q"
    using f findOne_code [OF f] by (simp add: findOne_save)
  have s': "status ?q = ''waiting''" and m: "u \<in> set (participants ?q)"
    using s by simp_all
  have again: "snd (join2 (save ?q st) c u) = save ?q st"
    using f' s' m by (simp add: join2_def Let_def)
  have ok: "fst (fst (join2 (save ?q st) c u)) = 200"
    using f' s' by (simp add: join2_def Let_def)
  have ok0: "fst (fst (join2 st c u)) = 200"
    using f s by (simp add: join2_def Let_def)
  show ?thesis
    unfolding st
    using f' again ok ok0 participantCount_join2 [OF f' s', of u]
      participantCount_join2 [OF f s, of u] False
    by simp
qed

text \<open>
  Claim C6 says that \<^verbatim>\<open>/join\<close> is idempotent per code and user id: on a quiz in the
  waiting state the second join of a user leaves the participant count unchanged and
  returns the current quiz state without error. Variant 2 does that
  (\<open>join2_idempotent\<close>). Variant 1 pushes a record \<^verbatim>\<open>{userId, username, score}\<close> into
  \<^verbatim>\<open>participants\<close>, which the schema file declares as \<^verbatim>\<open>[String]\<close>: the cast fails, the
  handler answers 500 and stores nothing, so the second join of the same user is answered
  500 again instead of the quiz state. (It would be idempotent with an array of records:
  \<open>join1_idempotent\<close>.) Variant 2, on the quiz that \<^verbatim>\<open>u2\<close> has joined: the second join
  answers 200 and writes nothing.
\<close>

theorem join1_fails_on_schema_cast:
  "findOne ''ABC123'' [pending1] = Some pending1 \<and>
   status pending1 = ''pending'' \<and>
   fst (fst (join1 cast_String [pending1] (Some ''ABC123'') (Some ''u2'') (Some ''Bob''))) = 500 \<and>
   snd (join1 cast_String [pending1] (Some ''ABC123'') (Some ''u2'') (Some ''Bob'')) = [pending1] \<and>
   fst (fst (join1 cast_String
     (snd (join1 cast_String [pending1] (Some ''ABC123'') (Some ''u2'') (Some ''Bob'')))
     (Some ''ABC123'') (Some ''u2'') (Some ''Bob''))) = 500 \<and>
   map participants joined2 = [[''u2'']] \<and>
   fst (fst (join2 joined2 ''4FZYO8'' ''u2'')) = 200 \<and>
   snd (join2 joined2 ''4FZYO8'' ''u2'') = joined2"
  by (simp add: join1_def join2_def cast_String_def findOne_def pending1_def joined2_def
      create2_def q1_def stored_question_def options_or_empty_def timeLimit_or_30_def
      substring_def toUpperCase_def toUpperChar_def Let_def)

subsection \<open>Starting a quiz\<close>

lemma start1_ok_iff:
  "fst (fst (start1 st cd cn now)) = 200 \<Longrightarrow>
   \<exists>quiz. \<not> falsy cd \<and> \<not> falsy cn \<and> findOne (the cd) st = Some quiz \<and> creatorName quiz = cn \<and>
     snd (start1 st cd cn now) = save (quiz\<lparr>status := ''active'', startTime := Some now\<rparr>) st"
  by (auto simp: start1_def fail_def Let_def split: if_splits option.splits)

text \<open>
  Variant 1 tests the status. On a quiz that is already active, a start with its code and
  a non-empty \<^verbatim>\<open>creatorName\<close> fails and writes nothing: with 400 when the name is the
  stored one, with 403 otherwise (the creator is checked first). After a start that
  succeeded, a second start with the same code and name fails with 400.
\<close>

lemma start1_tests_status:
  "(findOne c st = Some quiz \<and> status quiz = ''active'' \<and> c \<noteq> [] \<and> \<not> falsy cn \<longrightarrow>
      start1 st (Some c) cn now =
        (if creatorName quiz = cn then fail 400 ''Quiz is already started''
         else fail 403 ''Only quiz creator can start the quiz'', st)) \<and>
   (fst (fst (start1 st cd cn now)) = 200 \<longrightarrow>
      start1 (snd (start1 st cd cn now)) cd cn now' =
        (fail 400 ''Quiz is already started'', snd (start1 st cd cn now)))"
proof (intro conjI impI)
  assume "findOne c st = Some quiz \<and> status quiz = ''active'' \<and> c \<noteq> [] \<and> \<not> falsy cn"
  then show "start1 st (Some c) cn now =
        (if creatorName quiz = cn then fail 400 ''Quiz is already started''
         else fail 403 ''Only quiz creator can start the quiz'', st)"
    by (simp add: start1_def)
next
  assume ok: "fst (fst (start1 st cd cn now)) = 200"
  from start1_ok_iff [OF ok] obtain quiz0 where
    cd: "\<not> falsy cd" and cn: "\<not> falsy cn" and
    f: "findOne (the cd) st = Some quiz0" and who: "creatorName quiz0 = cn" and
    st': "snd (start1 st cd cn now) = save (quiz0\<lparr>status := ''active'', startTime := Some now\<rparr>) st"
    by blast
  let ?q = "quiz0\<lparr>status := ''active'', startTime := Some now\<rparr>"
  have "code ?q = the cd"
    using findOne_code [OF f] by simp
  then have "findOne (the cd) (save ?q st) = Some ?q"
    using f by (rule findOne_save [rotated])
  then show "start1 (snd (start1 st cd cn now)) cd cn now' =
        (fail 400 ''Quiz is already started'', snd (start1 st cd cn now))"
    unfolding st' using cd cn who by (simp add: start1_def)
qed

text \<open>
  Variant 2 does not: whatever the status, a start whose \<^verbatim>\<open>userId\<close> equals the stored
  \<^verbatim>\<open>createdBy\<close> (both may be \<^verbatim>\<open>undefined\<close>) on a quiz with a participant answers 200 and
  writes the status and a new start time.
\<close>

lemma start2_ignores_status:
  assumes "findOne c st = Some quiz" and "createdBy quiz = userId" and "participants quiz \<noteq> []"
  shows "start2 st c userId now =
           ((200, JObj [(''success'', JBool True),
                        (''message'', JStr ''Quiz started successfully''),
                        (''questions'', JArr (map sanitized_plain (questions quiz)))]),
            save (quiz\<lparr>status := ''active'', startTime := Some now\<rparr>) st)"
  using assms by (simp add: start2_def Let_def)

text \<open>
  Claim C2 says that \<^verbatim>\<open>/start\<close> on a quiz whose status is already active fails with 400
  and changes nothing, and that a second start after a successful one always fails.
  Variant 1 tests the status (\<open>start1_tests_status\<close>); variant 2 has no such test
  (\<open>start2_ignores_status\<close>). In variant 2, on the quiz created with no \<^verbatim>\<open>userId\<close> and
  joined by one user, a start with no \<^verbatim>\<open>userId\<close> answers 200 and makes the quiz active,
  and the same start sent again answers 200 again.
\<close>

theorem start2_restarts_active_quiz:
  "fst (fst (start2 joined2 ''4FZYO8'' None 100)) = 200 \<and>
   map code started2 = [''4FZYO8''] \<and>
   map status started2 = [''active''] \<and>
   fst (fst (start2 started2 ''4FZYO8'' None 200)) = 200 \<and>
   fst (start2 started2 ''4FZYO8'' None 200) = fst (start2 joined2 ''4FZYO8'' None 100)"
  by (simp add: started2_def joined2_def start2_def join2_def create2_def findOne_def q1_def
      stored_question_def options_or_empty_def timeLimit_or_30_def substring_def
      toUpperCase_def toUpperChar_def Let_def)

subsection \<open>Submitting an answer\<close>

text \<open>
  Claim C5: for every active quiz, \<^verbatim>\<open>/submit-answer\<close> with a question index outside
  \<open>[0, length questions)\<close> fails with 400 and stores nothing; for an index inside, the
  \<^verbatim>\<open>correct\<close> flag of the response is true exactly when the answer equals the question's
  \<^verbatim>\<open>correctAnswer\<close> as a string, character by character.
\<close>

theorem submitAnswer_index_and_correct:
  assumes "findOne c st = Some quiz" and "status quiz = ''active''"
  shows "(\<not> (0 \<le> i \<and> i < int (length (questions quiz))) \<longrightarrow>
            submitAnswer st c userId i answer now = (err 400 ''Invalid question index'', st)) \<and>
         (0 \<le> i \<and> i < int (length (questions quiz)) \<longrightarrow>
            fst (fst (submitAnswer st c userId i answer now)) = 200 \<and>
            jget ''correct'' (snd (fst (submitAnswer st c userId i answer now))) =
              Some (JBool (correctAnswer (questions quiz ! nat i) = Some answer)))"
  using assms by (simp add: submitAnswer_def at_index_def obj_def Let_def)

theorem submitAnswer_index_and_correct_witness:
  "findOne ''ABC123'' [quiz2 ''active'' [''u2'']] = Some (quiz2 ''active'' [''u2'']) \<and>
   status (quiz2 ''active'' [''u2'']) = ''active'' \<and>
   submitAnswer [quiz2 ''active'' [''u2'']] ''ABC123'' ''u2'' 1 ''A'' 7 =
     (err 400 ''Invalid question index'', [quiz2 ''active'' [''u2'']]) \<and>
   submitAnswer [quiz2 ''active'' [''u2'']] ''ABC123'' ''u2'' (- 1) ''A'' 7 =
     (err 400 ''Invalid question index'', [quiz2 ''active'' [''u2'']]) \<and>
   jget ''correct'' (snd (fst (submitAnswer [quiz2 ''active'' [''u2'']] ''ABC123'' ''u2'' 0 ''A'' 7))) =
     Some (JBool True) \<and>
   jget ''correct'' (snd (fst (submitAnswer [quiz2 ''active'' [''u2'']] ''ABC123'' ''u2'' 0 ''a'' 7))) =
     Some (JBool False)"
proof -
  let ?q = "quiz2 ''active'' [''u2'']"
  have h: "findOne ''ABC123'' [?q] = Some ?q"
    by (simp add: findOne_def quiz2_def)
  have a: "status ?q = ''active''"
    by (simp add: quiz2_def)
  show ?thesis
    using h a
      submitAnswer_index_and_correct [OF h a, of 1 "''u2''" "''A''" 7]
      submitAnswer_index_and_correct [OF h a, of "- 1" "''u2''" "''A''" 7]
      submitAnswer_index_and_correct [OF h a, of 0 "''u2''" "''A''" 7]
      submitAnswer_index_and_correct [OF h a, of 0 "''u2''" "''a''" 7]
    by (simp add: quiz2_def q1_def)
qed

subsection \<open>Submitting a score\<close>

text \<open>
  Claim C7: for every existing quiz, \<^verbatim>\<open>/submit\<close> answers \<^verbatim>\<open>currentRank\<close> = 1 + the
  number of entries that were in \<^verbatim>\<open>scores\<close> before this submission and whose score is
  strictly greater than the submitted one. (The entry is pushed before the count; it is
  not greater than itself.) With scores 90 and 70 stored, submitting 80 gives rank 2.
\<close>

theorem submitScore_currentRank:
  assumes "findOne c st = Some quiz"
  shows "fst (submitScore st c userId score now) =
           (200, JObj [(''message'', JStr ''Score submitted successfully''),
                       (''currentRank'',
                        JNum (1 + int (length (filter (\<lambda>s. s_score s > score) (scores quiz)))))])"
  using assms by (simp add: submitScore_def Let_def)

theorem submitScore_currentRank_witness:
  "findOne ''ABC123''
     [scored [\<lparr>s_userId = ''a'', s_score = 90, s_submittedAt = 1\<rparr>,
              \<lparr>s_userId = ''b'', s_score = 70, s_submittedAt = 2\<rparr>]] =
     Some (scored [\<lparr>s_userId = ''a'', s_score = 90, s_submittedAt = 1\<rparr>,
              \<lparr>s_userId = ''b'', s_score = 70, s_submittedAt = 2\<rparr>]) \<and>
   fst (submitScore
     [scored [\<lparr>s_userId = ''a'', s_score = 90, s_submittedAt = 1\<rparr>,
              \<lparr>s_userId = ''b'', s_score = 70, s_submittedAt = 2\<rparr>]] ''ABC123'' ''c'' 80 3) =
     (200, JObj [(''message'', JStr ''Score submitted successfully''),
                 (''currentRank'', JNum 2)])"
proof -
  let ?q = "scored [\<lparr>s_userId = ''a'', s_score = 90, s_submittedAt = 1\<rparr>,
              \<lparr>s_userId = ''b'', s_score = 70, s_submittedAt = 2\<rparr>]"
  have h: "findOne ''ABC123'' [?q] = Some ?q"
    by (simp add: findOne_def scored_def)
  show ?thesis
    using h submitScore_currentRank [OF h, of "''c''" 80 3] by (simp add: scored_def)
qed



subsection \<open>The leaderboard\<close>

lemma mset_place: "mset (place cmp x xs) = add_mset x (mset xs)"
  by (induction xs) auto

lemma mset_sort_cmp: "mset (sort_cmp cmp xs) = mset xs"
  by (induction xs) (auto simp: mset_place)

lemma set_place: "set (place cmp x xs) = insert x (set xs)"
  by (induction xs) auto

lemma sorted_place:
  "sorted_wrt (\<lambda>a b. s_score b \<le> s_score a) xs \<Longrightarrow>
   sorted_wrt (\<lambda>a b. s_score b \<le> s_score a) (place by_score_desc x xs)"
  by (induction xs) (auto simp: set_place by_score_desc_def)

lemma sorted_sort_cmp:
  "sorted_wrt (\<lambda>a b. s_score b \<le> s_score a) (sort_cmp by_score_desc xs)"
  by (induction xs) (auto simp: sorted_place)

lemma length_map_index: "length (map_index f i xs) = length xs"
  by (induction xs arbitrary: i) auto

lemma nth_map_index: "k < length xs \<Longrightarrow> map_index f i xs ! k = f (i + k) (xs ! k)"
proof (induction xs arbitrary: i k)
  case Nil
  then show ?case by simp
next
  case (Cons x xs)
  then show ?case by (cases k) auto
qed

text \<open>
  Claim C8: for every existing quiz, \<^verbatim>\<open>GET /leaderboard/:code\<close> answers the entries of
  \<^verbatim>\<open>scores\<close> (the same entries, as a multiset) in descending order of score, the entry
  at position \<open>k\<close> carrying \<^verbatim>\<open>rank\<close> \<open>k + 1\<close>. For three users with the scores 50, 90
  and 70 the ranks are 3, 1 and 2.
\<close>

theorem leaderboard_sorted_ranked:
  assumes "findOne c st = Some quiz"
  shows "leaderboard st c = (200, JArr (map_index ranked 0 (sort_cmp by_score_desc (scores quiz)))) \<and>
         mset (sort_cmp by_score_desc (scores quiz)) = mset (scores quiz) \<and>
         sorted_wrt (\<lambda>a b. s_score b \<le> s_score a) (sort_cmp by_score_desc (scores quiz)) \<and>
         length (map_index ranked 0 (sort_cmp by_score_desc (scores quiz))) = length (scores quiz) \<and>
         (\<forall>k < length (scores quiz).
            map_index ranked 0 (sort_cmp by_score_desc (scores quiz)) ! k =
              obj (score_json (sort_cmp by_score_desc (scores quiz) ! k) @
                   [(''rank'', Some (JNum (int k + 1)))]))"
proof -
  have len: "length (sort_cmp by_score_desc (scores quiz)) = length (scores quiz)"
    using mset_sort_cmp [of by_score_desc "scores quiz"] by (metis size_mset)
  show ?thesis
    using assms
    by (simp add: leaderboard_def mset_sort_cmp sorted_sort_cmp length_map_index len
        nth_map_index ranked_def)
qed

theorem leaderboard_sorted_ranked_witness:
  "findOne ''ABC123'' [scored three] = Some (scored three) \<and>
   fst (leaderboard [scored three] ''ABC123'') = 200 \<and>
   map s_score (sort_cmp by_score_desc (scores (scored three))) = [90, 70, 50] \<and>
   map (\<lambda>u. rank_of u (snd (leaderboard [scored three] ''ABC123''))) [''u1'', ''u2'', ''u3''] =
     [Some (JNum 3), Some (JNum 1), Some (JNum 2)]"
proof -
  have h: "findOne ''ABC123'' [scored three] = Some (scored three)"
    by (simp add: findOne_def scored_def)
  show ?thesis
    using h leaderboard_sorted_ranked [OF h]
    by (simp add: scored_def three_def by_score_desc_def ranked_def score_json_def obj_def)
qed

subsection \<open>The creator's view\<close>

text \<open>
  Claim C9 as stated: an identity that does not match is answered 403 whether or not a
  quiz with the code exists. The lookup comes first: with no quiz under the code the
  answer is 404.
\<close>

theorem getAdmin_not_found_counterexample:
  "findOne ''ABC123'' ([] :: participant store) = None \<and>
   fst (getAdmin1 [] ''ABC123'' (Some ''u2'')) = 404 \<and>
   findOne ''ABC123'' ([] :: string store) = None \<and>
   fst (getAdmin2 [] ''ABC123'' (Some ''u2'')) = 404"
  by (simp add: getAdmin1_def getAdmin2_def findOne_def err_def)

text \<open>
  Claim C9, amended: for every quiz that exists, \<^verbatim>\<open>GET /:code/admin\<close> with an identity
  that differs from the stored \<^verbatim>\<open>createdBy\<close> fails with 403; when no quiz has the code,
  it fails with 404 whatever the identity.
\<close>

theorem getAdmin_forbidden_or_not_found:
  "(findOne c sta = Some qa \<and> createdBy qa \<noteq> ident \<longrightarrow>
      getAdmin1 sta c ident = err 403 ''Unauthorized access'') \<and>
   (findOne c sta = None \<longrightarrow> getAdmin1 sta c ident = err 404 ''Quiz not found'') \<and>
   (findOne c stb = Some qb \<and> createdBy qb \<noteq> ident \<longrightarrow>
      getAdmin2 stb c ident = err 403 ''Unauthorized access'') \<and>
   (findOne c stb = None \<longrightarrow> getAdmin2 stb c ident = err 404 ''Quiz not found'')"
  by (simp add: getAdmin1_def getAdmin2_def)

theorem getAdmin_forbidden_or_not_found_witness:
  "findOne ''ABC123'' [quiz1 ''pending'' []] = Some (quiz1 ''pending'' []) \<and>
   createdBy (quiz1 ''pending'' []) \<noteq> Some ''u2'' \<and>
   getAdmin1 [quiz1 ''pending'' []] ''ABC123'' (Some ''u2'') = err 403 ''Unauthorized access'' \<and>
   getAdmin1 [] ''ABC123'' (Some ''u2'') = err 404 ''Quiz not found'' \<and>
   findOne ''ABC123'' [quiz2 ''waiting'' []] = Some (quiz2 ''waiting'' []) \<and>
   getAdmin2 [quiz2 ''waiting'' []] ''ABC123'' (Some ''u2'') = err 403 ''Unauthorized access'' \<and>
   getAdmin2 [] ''ABC123'' (Some ''u2'') = err 404 ''Quiz not found''"
  using
    getAdmin_forbidden_or_not_found [of "''ABC123''" "[quiz1 ''pending'' []]"
      "quiz1 ''pending'' []" "Some ''u2''" "[quiz2 ''waiting'' []]" "quiz2 ''waiting'' []"]
    getAdmin_forbidden_or_not_found [of "''ABC123''" "[]" _ "Some ''u2''" "[]"]
  by (simp add: findOne_def quiz1_def quiz2_def)

end
